theory Spec2Isabelle
  imports Complex_Main "HOL-Library.Word"
begin

unbundle bit_operations_syntax

section \<open>JavaScript values used by the astrology helpers\<close>

text \<open>
  A JavaScript string is a sequence of 16-bit code units; \<open>charCodeAt\<close>, \<open>length\<close>,
  \<open>slice\<close>, \<open>split\<close> and \<open>includes\<close> all work on code units. String literals of the
  source are written with \<open>str\<close>; the few code units of the source's literals that lie
  outside ASCII (dashes) are written as numbers.
\<close>

type_synonym jsstring = "16 word list"

definition str :: "string \<Rightarrow> jsstring" where
  "str s = map of_char s"

text \<open>
  A JavaScript number is modelled on its integer values (exact in a double below
  \<open>2 ^ 53\<close>) together with \<open>NaN\<close>. The value \<open>undefined\<close> (a missing array
  element, an index out of range) is \<open>None\<close> of an option type.
\<close>

datatype number = Num int | NaN

definition isDigit :: "16 word \<Rightarrow> bool" where
  "isDigit c \<longleftrightarrow> 48 \<le> c \<and> c \<le> 57"

definition digitVal :: "16 word \<Rightarrow> int" where
  "digitVal c = uint c - 48"

definition decimalValue :: "jsstring \<Rightarrow> int" where
  "decimalValue s = foldl (\<lambda>a c. 10 * a + digitVal c) 0 s"

text \<open>
  \<open>Number(s)\<close> on a string. The model covers the empty string (which is 0), and an
  optional sign followed by decimal digits. The other numeric literals of JavaScript
  (surrounding white space, fractions, exponents, hexadecimal, \<open>Infinity\<close>) are outside
  the model, which answers \<open>NaN\<close> for them as for every other text; a well-formed date
  text never contains one. Whenever the model answers \<open>Num k\<close> with \<open>k\<close> below
  \<open>2 ^ 53\<close> in absolute value, so does the source (a double rounds longer digit
  strings).
\<close>

definition unsignedNumber :: "jsstring \<Rightarrow> number" where
  "unsignedNumber s = (if s \<noteq> [] \<and> list_all isDigit s then Num (decimalValue s) else NaN)"

definition Number :: "jsstring \<Rightarrow> number" where
  "Number s =
     (case s of
        [] \<Rightarrow> Num 0
      | c # r \<Rightarrow>
          if c = 45 then (case unsignedNumber r of Num k \<Rightarrow> Num (- k) | NaN \<Rightarrow> NaN)
          else if c = 43 then unsignedNumber r
          else unsignedNumber s)"

text \<open>
  \<open>n.toString()\<close> and template interpolation of a number. The decimal text written here
  is what the source prints for an integer below \<open>2 ^ 53\<close> in absolute value; beyond
  that a double holds a rounded value, and from \<open>10 ^ 21\<close> on the source prints exponent
  form.
\<close>

fun showNat :: "nat \<Rightarrow> jsstring" where
  "showNat n = (if n < 10 then [of_nat (48 + n)] else showNat (n div 10) @ [of_nat (48 + n mod 10)])"

declare showNat.simps [simp del]

definition toString :: "number \<Rightarrow> jsstring" where
  "toString n =
     (case n of
        NaN \<Rightarrow> str ''NaN''
      | Num k \<Rightarrow> if k < 0 then 45 # showNat (nat (- k)) else showNat (nat k))"

text \<open>
  Arithmetic and comparison of numbers: \<open>NaN\<close> propagates through \<open>+\<close>, \<open>-\<close> and
  \<open>%\<close>, and every comparison with \<open>NaN\<close> or \<open>undefined\<close> is false. The remainder
  \<open>%\<close> of JavaScript truncates: its result has the sign of the dividend.
\<close>

definition jsrem :: "int \<Rightarrow> int \<Rightarrow> int" where
  "jsrem a b = sgn a * (\<bar>a\<bar> mod \<bar>b\<bar>)"

definition jsAdd :: "number \<Rightarrow> number \<Rightarrow> number" where
  "jsAdd a b = (case (a, b) of (Num x, Num y) \<Rightarrow> Num (x + y) | _ \<Rightarrow> NaN)"

definition remainder :: "number \<Rightarrow> int \<Rightarrow> number" where
  "remainder a b = (case a of Num x \<Rightarrow> (if b = 0 then NaN else Num (jsrem x b)) | NaN \<Rightarrow> NaN)"

fun intOf :: "number option \<Rightarrow> int option" where
  "intOf (Some (Num k)) = Some k"
| "intOf (Some NaN) = None"
| "intOf None = None"

definition jsGt :: "number option \<Rightarrow> int \<Rightarrow> bool" where
  "jsGt a b = (case intOf a of Some k \<Rightarrow> k > b | None \<Rightarrow> False)"

definition jsLt :: "number option \<Rightarrow> int \<Rightarrow> bool" where
  "jsLt a b = (case intOf a of Some k \<Rightarrow> k < b | None \<Rightarrow> False)"

definition jsGe :: "number option \<Rightarrow> int \<Rightarrow> bool" where
  "jsGe a b = (case intOf a of Some k \<Rightarrow> k \<ge> b | None \<Rightarrow> False)"

definition jsLe :: "number option \<Rightarrow> int \<Rightarrow> bool" where
  "jsLe a b = (case intOf a of Some k \<Rightarrow> k \<le> b | None \<Rightarrow> False)"

definition jsEq :: "number option \<Rightarrow> int \<Rightarrow> bool" where
  "jsEq a b = (case intOf a of Some k \<Rightarrow> k = b | None \<Rightarrow> False)"

text \<open>
  \<open>xs[i]\<close> on an array: \<open>undefined\<close> when the index is not one of \<open>0 .. length - 1\<close>
  (negative, too large, or \<open>NaN\<close>).
\<close>

definition elemAt :: "'a list \<Rightarrow> number \<Rightarrow> 'a option" where
  "elemAt xs i =
     (case i of
        Num k \<Rightarrow> if 0 \<le> k \<and> k < int (length xs) then Some (xs ! nat k) else None
      | NaN \<Rightarrow> None)"

text \<open>\<open>s.split(sep)\<close> for a one-unit separator, and \<open>s.split('')\<close>.\<close>

fun splitOn :: "16 word \<Rightarrow> jsstring \<Rightarrow> jsstring list" where
  "splitOn sep [] = [[]]"
| "splitOn sep (c # cs) =
     (if c = sep then [] # splitOn sep cs
      else (case splitOn sep cs of p # ps \<Rightarrow> (c # p) # ps | [] \<Rightarrow> [[c]]))"

definition splitChars :: "jsstring \<Rightarrow> jsstring list" where
  "splitChars s = map (\<lambda>c. [c]) s"

text \<open>\<open>s.slice(0, n)\<close> and \<open>q.includes(k)\<close>.\<close>

definition slice0 :: "nat \<Rightarrow> jsstring \<Rightarrow> jsstring" where
  "slice0 n s = take n s"

fun includesStr :: "jsstring \<Rightarrow> jsstring \<Rightarrow> bool" where
  "includesStr [] k = (k = [])"
| "includesStr (c # cs) k = (take (length k) (c # cs) = k \<or> includesStr cs k)"

section \<open>Data model\<close>

datatype element = Fire | Earth | Air | Water

datatype modality = Cardinal | Fixed | Mutable

record BirthInput =
  name :: jsstring
  date :: jsstring
  time :: jsstring
  place :: jsstring
  tzOffset :: jsstring

record SunSign =
  sign :: jsstring
  element :: element
  modality :: modality

record AstroProfile =
  name :: jsstring
  sunSign :: jsstring
  element :: element
  modality :: modality
  lifePath :: number
  chineseAnimal :: "jsstring option"
  luckyColor :: jsstring
  luckyNumber :: "number option"
  summary :: jsstring

type_synonym SignRecord = "jsstring \<times> (int \<times> int) \<times> (int \<times> int) \<times> element \<times> modality"

definition SIGN_TABLE :: "SignRecord list" where
  "SIGN_TABLE =
    [ (str ''Capricorn'',   (12, 22), (1, 19),  Earth, Cardinal),
      (str ''Aquarius'',    (1, 20),  (2, 18),  Air,   Fixed),
      (str ''Pisces'',      (2, 19),  (3, 20),  Water, Mutable),
      (str ''Aries'',       (3, 21),  (4, 19),  Fire,  Cardinal),
      (str ''Taurus'',      (4, 20),  (5, 20),  Earth, Fixed),
      (str ''Gemini'',      (5, 21),  (6, 20),  Air,   Mutable),
      (str ''Cancer'',      (6, 21),  (7, 22),  Water, Cardinal),
      (str ''Leo'',         (7, 23),  (8, 22),  Fire,  Fixed),
      (str ''Virgo'',       (8, 23),  (9, 22),  Earth, Mutable),
      (str ''Libra'',       (9, 23),  (10, 22), Air,   Cardinal),
      (str ''Scorpio'',     (10, 23), (11, 21), Water, Fixed),
      (str ''Sagittarius'', (11, 22), (12, 21), Fire,  Mutable) ]"

section \<open>Sign lookup\<close>

text \<open>
  \<open>toDateParts\<close> splits at \<open>-\<close>, converts every part with \<open>Number\<close> and takes the
  first three; a part that is missing is \<open>undefined\<close>.
\<close>

definition toDateParts :: "jsstring \<Rightarrow> number option \<times> number option \<times> number option" where
  "toDateParts isoDate =
     (let parts = map Number (splitOn 45 isoDate)
      in (elemAt parts (Num 0), elemAt parts (Num 1), elemAt parts (Num 2)))"

text \<open>The test of the loop body of \<open>getSunSign\<close> on one record of the table.\<close>

definition matches :: "number option \<Rightarrow> number option \<Rightarrow> SignRecord \<Rightarrow> bool" where
  "matches m d r =
     (case r of (nm, (sm, sd), (em, ed), el, mo) \<Rightarrow>
        let afterStart = (jsGt m sm \<or> (jsEq m sm \<and> jsGe d sd));
            beforeEnd = (jsLt m em \<or> (jsEq m em \<and> jsLe d ed))
        in (sm \<le> em \<and> afterStart \<and> beforeEnd) \<or> (sm > em \<and> (afterStart \<or> beforeEnd)))"

text \<open>
  The loop returns at the first record that passes the test, and the function falls back
  to Capricorn when the loop ends without a return.
\<close>

definition returned :: "SignRecord \<Rightarrow> SunSign" where
  "returned r =
     (case r of (nm, start, end, el, mo) \<Rightarrow>
        \<lparr>sign = nm, SunSign.element = el, SunSign.modality = mo\<rparr>)"

definition getSunSign :: "jsstring \<Rightarrow> SunSign" where
  "getSunSign isoDate =
     (case toDateParts isoDate of (y, m, d) \<Rightarrow>
        (case find (matches m d) SIGN_TABLE of
           Some r \<Rightarrow> returned r
         | None \<Rightarrow> \<lparr>sign = str ''Capricorn'', SunSign.element = Earth, SunSign.modality = Cardinal\<rparr>))"

section \<open>Numerology\<close>

text \<open>
  The loop of \<open>reduceDigits\<close>: while \<open>n > 9\<close> and \<open>n\<close> is none of 11, 22, 33, replace
  \<open>n\<close> by the sum of the digits of its decimal text. The sum is the source's
  \<open>reduce((a,b) => a+b, 0)\<close> over \<open>Number\<close> of each character. Through
  \<open>toString\<close>, the model is the source's loop for integers below \<open>2 ^ 53\<close>, which
  covers every digit total of a date text; statements about \<open>reduceDigits\<close> on its own
  carry that bound.
\<close>

definition sumNumbers :: "number list \<Rightarrow> number" where
  "sumNumbers xs = foldl jsAdd (Num 0) xs"

definition digitSumOf :: "number \<Rightarrow> number" where
  "digitSumOf n = sumNumbers (map Number (splitChars (toString n)))"

definition reduceMeasure :: "number \<Rightarrow> nat" where
  "reduceMeasure n = (case n of Num k \<Rightarrow> nat k | NaN \<Rightarrow> 0)"


function reduceDigits :: "number \<Rightarrow> number" where
  "reduceDigits n =
     (if jsGt (Some n) 9 \<and> n \<notin> set [Num 11, Num 22, Num 33]
      then reduceDigits (digitSumOf n) else n)"
  by pat_completeness auto
termination
proof (relation "measure reduceMeasure")
  show "wf (measure reduceMeasure)" by simp
next
  fix n :: number
  assume a: "jsGt (Some n) 9 \<and> n \<notin> set [Num 11, Num 22, Num 33]"
  then obtain k where n: "n = Num k" and k: "9 < k"
    by (cases n) (simp_all add: jsGt_def)
  have digit: "Number [48 + of_nat d] = Num (int d)" if "d < 10" for d :: nat
  proof -
    have "d \<in> {0,1,2,3,4,5,6,7,8,9}" using that by auto
    then show ?thesis
      by (auto simp: Number_def unsignedNumber_def isDigit_def decimalValue_def digitVal_def)
  qed
  have acc: "\<exists>j. foldl jsAdd (Num a) (map Number (splitChars (showNat m))) = Num (a + int j)
               \<and> j \<le> m \<and> (10 \<le> m \<longrightarrow> j < m)" for a :: int and m :: nat
  proof (induction m arbitrary: a rule: showNat.induct)
    case (1 m)
    show ?case
    proof (cases "m < 10")
      case True
      then show ?thesis
        by (subst showNat.simps) (simp add: splitChars_def digit jsAdd_def)
    next
      case False
      from 1 [OF False, of a] obtain j where
        j: "foldl jsAdd (Num a) (map Number (splitChars (showNat (m div 10)))) = Num (a + int j)"
        and le: "j \<le> m div 10" by blast
      have "foldl jsAdd (Num a) (map Number (splitChars (showNat m))) = Num (a + int (j + m mod 10))"
        using False j by (subst showNat.simps) (simp add: splitChars_def digit jsAdd_def)
      moreover have "j + m mod 10 < m"
      proof -
        have "1 \<le> m div 10" using False by simp
        moreover have "m = 10 * (m div 10) + m mod 10" by simp
        ultimately show ?thesis using le by linarith
      qed
      ultimately show ?thesis by (intro exI [of _ "j + m mod 10"]) simp
    qed
  qed
  from acc [of 0 "nat k"] obtain j where
    "digitSumOf n = Num (int j)" and "j < nat k"
    using n k by (auto simp: digitSumOf_def sumNumbers_def toString_def)
  then show "(digitSumOf n, n) \<in> measure reduceMeasure"
    using n by (simp add: reduceMeasure_def)
qed

declare reduceDigits.simps [simp del]

definition lifePathFromDate :: "jsstring \<Rightarrow> number" where
  "lifePathFromDate isoDate =
     (let digits = map Number (splitChars (filter isDigit isoDate));
          sum = sumNumbers digits
      in reduceDigits sum)"

section \<open>Cyclic zodiac and lucky number\<close>

definition CHINESE_ANIMALS :: "jsstring list" where
  "CHINESE_ANIMALS = map str
     [''Rat'', ''Ox'', ''Tiger'', ''Rabbit'', ''Dragon'', ''Snake'',
      ''Horse'', ''Goat'', ''Monkey'', ''Rooster'', ''Dog'', ''Pig'']"

definition chineseZodiacFromYear :: "jsstring \<Rightarrow> jsstring option" where
  "chineseZodiacFromYear isoDate =
     (let y = Number (slice0 4 isoDate);
          idx = remainder (jsAdd y (Num (- 2008))) 12;
          pos = remainder (jsAdd idx (Num 12)) 12
      in elemAt CHINESE_ANIMALS pos)"

definition luckyNumber :: "number \<Rightarrow> number option" where
  "luckyNumber lp =
     (let table = [Num 3, Num 6, Num 9, Num 2, Num 1, Num 8, Num 7, Num 5, Num 4]
      in elemAt table (remainder (jsAdd lp (Num (- 1))) (int (length table))))"

section \<open>Profile composer\<close>

definition SIGN_TRAITS :: "(jsstring \<times> jsstring list) list" where
  "SIGN_TRAITS =
    [ (str ''Aries'', map str [''bold'', ''energetic'', ''decisive'', ''pioneering'']),
      (str ''Taurus'', map str [''steady'', ''sensual'', ''practical'', ''loyal'']),
      (str ''Gemini'', map str [''curious'', ''adaptable'', ''witty'', ''communicative'']),
      (str ''Cancer'', map str [''nurturing'', ''intuitive'', ''protective'', ''empathetic'']),
      (str ''Leo'', map str [''confident'', ''creative'', ''warm'', ''charismatic'']),
      (str ''Virgo'', map str [''analytical'', ''helpful'', ''meticulous'', ''grounded'']),
      (str ''Libra'', map str [''harmonious'', ''diplomatic'', ''fair'', ''aesthetic'']),
      (str ''Scorpio'', map str [''intense'', ''transformational'', ''private'', ''magnetic'']),
      (str ''Sagittarius'', map str [''expansive'', ''optimistic'', ''philosophical'', ''adventurous'']),
      (str ''Capricorn'', map str [''ambitious'', ''disciplined'', ''resilient'', ''strategic'']),
      (str ''Aquarius'', map str [''visionary'', ''inventive'', ''independent'', ''humanitarian'']),
      (str ''Pisces'', map str [''dreamy'', ''compassionate'', ''artistic'', ''mystical'']) ]"

definition SIGN_COLORS :: "(jsstring \<times> jsstring) list" where
  "SIGN_COLORS =
    [ (str ''Aries'', str ''#ef4444''),
      (str ''Taurus'', str ''#22c55e''),
      (str ''Gemini'', str ''#06b6d4''),
      (str ''Cancer'', str ''#14b8a6''),
      (str ''Leo'', str ''#f59e0b''),
      (str ''Virgo'', str ''#84cc16''),
      (str ''Libra'', str ''#a78bfa''),
      (str ''Scorpio'', str ''#e11d48''),
      (str ''Sagittarius'', str ''#f97316''),
      (str ''Capricorn'', str ''#64748b''),
      (str ''Aquarius'', str ''#38bdf8''),
      (str ''Pisces'', str ''#60a5fa'') ]"

text \<open>Template interpolation of an element, a modality and a possibly undefined string.\<close>

fun showElement :: "element \<Rightarrow> jsstring" where
  "showElement Fire = str ''Fire''"
| "showElement Earth = str ''Earth''"
| "showElement Air = str ''Air''"
| "showElement Water = str ''Water''"

fun showModality :: "modality \<Rightarrow> jsstring" where
  "showModality Cardinal = str ''Cardinal''"
| "showModality Fixed = str ''Fixed''"
| "showModality Mutable = str ''Mutable''"

definition showOptional :: "jsstring option \<Rightarrow> jsstring" where
  "showOptional v = (case v of Some s \<Rightarrow> s | None \<Rightarrow> str ''undefined'')"

text \<open>\<open>xs.join(sep)\<close>.\<close>

fun join :: "jsstring \<Rightarrow> jsstring list \<Rightarrow> jsstring" where
  "join sep [] = []"
| "join sep [x] = x"
| "join sep (x # y # ys) = x @ sep @ join sep (y # ys)"

definition profileFromBirth :: "BirthInput \<Rightarrow> AstroProfile" where
  "profileFromBirth input =
     (let sun = getSunSign (date input);
          life = lifePathFromDate (date input);
          chinese = chineseZodiacFromYear (date input);
          color = (case map_of SIGN_COLORS (sign sun) of Some c \<Rightarrow> c | None \<Rightarrow> str ''#38bdf8'');
          lucky = luckyNumber life;
          traits = (case map_of SIGN_TRAITS (sign sun) of Some ts \<Rightarrow> ts | None \<Rightarrow> []);
          summ = BirthInput.name input @ str '', you'' @ [39] @ str ''re a '' @ sign sun
                 @ str '' ('' @ showElement (SunSign.element sun) @ str '', ''
                 @ showModality (SunSign.modality sun) @ str ''). Traits: ''
                 @ join (str '', '') (take 3 traits) @ str ''. Life Path '' @ toString life
                 @ str ''. Chinese Zodiac: '' @ showOptional chinese @ str ''.''
      in \<lparr> AstroProfile.name = BirthInput.name input,
           sunSign = sign sun,
           element = SunSign.element sun,
           modality = SunSign.modality sun,
           lifePath = life,
           chineseAnimal = chinese,
           luckyColor = color,
           luckyNumber = lucky,
           summary = summ \<rparr>)"

section \<open>Seeded selector\<close>

text \<open>
  The accumulator \<open>h\<close> of \<open>seedFrom\<close> goes through \<open>^=\<close> and \<open>Math.imul\<close>, which
  both work on the 32-bit pattern of their operands: a \<open>32 word\<close>, whose multiplication
  wraps. \<open>h >>> 0\<close> reads the pattern as unsigned. The quotient by \<open>2 ^ 32\<close> and its
  product with the list length 7 are exact in a double (the numerator stays below
  \<open>2 ^ 35\<close>), so they are the rational numbers written here.
\<close>

definition seedFrom :: "jsstring \<Rightarrow> rat" where
  "seedFrom s =
     (let h = foldl (\<lambda>h c. (h XOR ucast c) * 16777619) (2166136261 :: 32 word) s
      in of_nat (unat h) / 2 ^ 32)"

definition DAILY_AFFIRM :: "jsstring list" where
  "DAILY_AFFIRM =
    [ str ''Trust the process; your path unfolds as you act.'',
      str ''Small consistent steps beat rare bursts of effort.'',
      str ''Ask for help; collaboration brings faster clarity.'',
      str ''Rest fuels insight'' @ [8212] @ str ''balance doing with being.'',
      str ''Lead with kindness; it compounds quietly.'',
      str ''Be curious; questions unlock opportunities.'',
      str ''Declutter one thing; make room for growth.'' ]"

definition dailyMessage :: "jsstring \<Rightarrow> jsstring \<Rightarrow> jsstring option" where
  "dailyMessage nm isoDate =
     (let seed = seedFrom (nm @ isoDate);
          idx = \<lfloor>seed * of_nat (length DAILY_AFFIRM)\<rfloor>
      in elemAt DAILY_AFFIRM (Num idx))"

section \<open>Rule-based question router\<close>

text \<open>
  \<open>toLowerCase\<close> is modelled unit by unit and is exact on code units below 256 (ASCII
  and Latin-1 capitals move up by 32, the multiplication sign 215 stays); the Unicode
  case mapping of the other code units is outside the model, which leaves them as they
  are.
\<close>

definition lowerUnit :: "16 word \<Rightarrow> 16 word" where
  "lowerUnit c = (if (65 \<le> c \<and> c \<le> 90) \<or> (192 \<le> c \<and> c \<le> 222 \<and> c \<noteq> 215) then c + 32 else c)"

definition toLowerCase :: "jsstring \<Rightarrow> jsstring" where
  "toLowerCase s = map lowerUnit s"

definition KEYWORDS :: "jsstring list" where
  "KEYWORDS = map str
     [''career'', ''job'', ''work'', ''internship'', ''study'', ''exam'', ''love'',
      ''relationship'', ''marriage'', ''health'', ''money'', ''finance'', ''wealth'']"

definition careerText :: "element \<Rightarrow> jsstring" where
  "careerText e =
     (if e = Fire then
        str ''act boldly the next 7'' @ [8211] @ str ''10 days; pitch ideas and network. Document wins daily; momentum is your ally.''
      else if e = Earth then
        str ''focus on process'' @ [8212] @ str ''refactor routines, learn one automation, and ship one small improvement this week.''
      else if e = Air then
        str ''ideate and communicate'' @ [8212] @ str ''write a one'' @ [8209] @ str ''page plan, seek feedback, and iterate fast.''
      else
        str ''trust intuition'' @ [8212] @ str ''choose fewer, deeper tasks; avoid overcommitting; flow > force.'')"

definition studyText :: "modality \<Rightarrow> jsstring" where
  "studyText mo =
     (if mo = Mutable then
        str ''use spaced repetition + quick quizzes; rotate subjects to stay engaged.''
      else if mo = Fixed then
        str ''create a strict block schedule; deep work in 50'' @ [8209] @ str ''min chunks, minimal context switching.''
      else
        str ''start with an outline and teach-back method; you'' @ [39] @ str ''ll learn fastest by explaining.'')"

definition loveText :: jsstring where
  "loveText = str ''name your needs directly this week; schedule one shared ritual. Tiny, reliable gestures beat grand promises.''"

definition healthText :: jsstring where
  "healthText = str ''prioritize sleep consistency and light morning movement; pick one nourishing meal you can repeat.''"

definition moneyText :: jsstring where
  "moneyText = str ''do a 30'' @ [8209] @ str ''minute review: subscriptions, 1% saving bump, and one low'' @ [8209] @ str ''risk upskill investment.''"

definition defaultText :: jsstring where
  "defaultText = str ''clarify intention in one sentence, take the smallest next step today, and review results in 48 hours.''"

definition qaFallback :: "jsstring \<Rightarrow> AstroProfile \<Rightarrow> jsstring" where
  "qaFallback question profile =
     (let q = toLowerCase question;
          key = find (\<lambda>k. includesStr q k) KEYWORDS;
          base = str ''As a '' @ sunSign profile @ str '' ('' @ showElement (element profile)
                 @ str ''), Life Path '' @ toString (lifePath profile) @ str '': ''
      in if key \<in> Some ` str ` {''career'', ''job'', ''work'', ''internship''} then
           base @ careerText (element profile)
         else if key \<in> Some ` str ` {''study'', ''exam''} then
           base @ studyText (modality profile)
         else if key \<in> Some ` str ` {''love'', ''relationship'', ''marriage''} then
           base @ loveText
         else if key = Some (str ''health'') then
           base @ healthText
         else if key \<in> Some ` str ` {''money'', ''finance'', ''wealth''} then
           base @ moneyText
         else
           base @ defaultText)"

section \<open>Reference notions used in the statements\<close>

text \<open>The sum of the decimal digits of a natural number.\<close>

fun decimalDigitSum :: "nat \<Rightarrow> nat" where
  "decimalDigitSum n = (if n < 10 then n else decimalDigitSum (n div 10) + n mod 10)"

declare decimalDigitSum.simps [simp del]

text \<open>The sum of the values of the digit characters of a text.\<close>

definition digitTotal :: "jsstring \<Rightarrow> nat" where
  "digitTotal s = sum_list (map (\<lambda>c. nat (digitVal c)) (filter isDigit s))"

text \<open>The values at which the reduction stops.\<close>

definition stopValues :: "int set" where
  "stopValues = {0, 1, 2, 3, 4, 5, 6, 7, 8, 9, 11, 22, 33}"


text \<open>The text that the caller's check \<open>^\d{4}-\d{2}-\d{2}$\<close> lets through.\<close>

definition wellFormedDate :: "jsstring \<Rightarrow> bool" where
  "wellFormedDate s \<longleftrightarrow>
     length s = 10 \<and> s ! 4 = 45 \<and> s ! 7 = 45 \<and>
     list_all (\<lambda>i. isDigit (s ! i)) [0, 1, 2, 3, 5, 6, 8, 9]"

section \<open>Sign lookup: one record for every date\<close>







lemmas Number_defs = Number_def unsignedNumber_def isDigit_def decimalValue_def digitVal_def







section \<open>Cyclic zodiac and lucky number: the claims\<close>

lemma jsrem_nonneg: "0 \<le> a \<Longrightarrow> jsrem a 12 = a mod 12"
  by (cases "a = 0") (simp_all add: jsrem_def)

lemma double_rem: "jsrem (jsrem x 12 + 12) 12 = x mod 12"
proof (cases "0 \<le> x")
  case True
  have "0 \<le> x mod 12 + 12" by (simp add: add_nonneg_nonneg)
  then have "jsrem (x mod 12 + 12) 12 = (x mod 12 + 12) mod 12" by (rule jsrem_nonneg)
  then show ?thesis using True by (simp add: jsrem_nonneg)
next
  case False
  then have neg: "x < 0" by simp
  have r: "jsrem x 12 = - ((- x) mod 12)" using neg by (simp add: jsrem_def)
  have "(- x) mod 12 < 12" by simp
  then have "0 \<le> 12 - (- x) mod 12" by simp
  then have "jsrem (12 - (- x) mod 12) 12 = (12 - (- x) mod 12) mod 12" by (rule jsrem_nonneg)
  also have "\<dots> = (12 - (- x)) mod 12" by (rule mod_diff_right_eq)
  also have "\<dots> = x mod 12" by simp
  finally show ?thesis by (simp add: r)
qed

lemma zodiac_of_year:
  assumes "Number (slice0 4 isoDate) = Num y"
  shows "chineseZodiacFromYear isoDate = Some (CHINESE_ANIMALS ! nat ((y - 2008) mod 12))"
proof -
  have "0 \<le> (y - 2008) mod 12" "(y - 2008) mod 12 < 12" by simp_all
  moreover have "length CHINESE_ANIMALS = 12" by (simp add: CHINESE_ANIMALS_def)
  ultimately show ?thesis
    using assms
    by (simp add: chineseZodiacFromYear_def jsAdd_def remainder_def double_rem elemAt_def)
qed

lemma Number_year: "Number (str ''2008'') = Num 2008" "Number (str ''2020'') = Num 2020"
  by (simp_all add: str_def Number_defs)

text \<open>
  Claim C2 as stated fails for 2020: the year 2020 is 12 years, one full cycle, after the
  epoch 2008, so the source answers Rat for it and not Dragon.
\<close>

theorem zodiac_2020_counterexample:
  "chineseZodiacFromYear (str ''2020-01-01'') \<noteq> Some (str ''Dragon'')"
  by (simp add: zodiac_of_year [of _ 2020] slice0_def str_def Number_defs CHINESE_ANIMALS_def)

text \<open>
  Claim C2, amended. \<open>chineseZodiacFromYear\<close> returns Rat for every date text whose
  first four characters are 2008, it returns Rat as well for every date text whose first
  four characters are 2020, and index 0 of the animal list, the index of the epoch year,
  is Rat.
\<close>

theorem zodiac_2008_2020:
  assumes "slice0 4 a = str ''2008''" and "slice0 4 b = str ''2020''"
  shows "chineseZodiacFromYear a = Some (str ''Rat'')
       \<and> chineseZodiacFromYear b = Some (str ''Rat'')
       \<and> elemAt CHINESE_ANIMALS (Num 0) = Some (str ''Rat'')"
proof -
  have a: "Number (slice0 4 a) = Num 2008" and b: "Number (slice0 4 b) = Num 2020"
    using assms by (simp_all add: Number_year)
  show ?thesis
    by (simp add: zodiac_of_year [OF a] zodiac_of_year [OF b] CHINESE_ANIMALS_def elemAt_def)
qed

theorem zodiac_2008_2020_witness:
  "slice0 4 (str ''2008-02-07'') = str ''2008'' \<and> slice0 4 (str ''2020-12-31'') = str ''2020''
   \<and> chineseZodiacFromYear (str ''2008-02-07'') = Some (str ''Rat'')
   \<and> chineseZodiacFromYear (str ''2020-12-31'') = Some (str ''Rat'')"
proof -
  have a: "slice0 4 (str ''2008-02-07'') = str ''2008''" by (simp add: slice0_def str_def)
  have b: "slice0 4 (str ''2020-12-31'') = str ''2020''" by (simp add: slice0_def str_def)
  from zodiac_2008_2020 [OF a b] show ?thesis using a b by simp
qed

text \<open>
  Claim C9. The mapping has period 12: when the year of one date text is \<open>y\<close> and the
  year of another is \<open>y + 12\<close>, both get the same animal, and it is one of the list
  (the index is never negative), for years before the epoch 2008 as for years after it.
\<close>

theorem zodiac_period_12:
  assumes "Number (slice0 4 a) = Num y" and "Number (slice0 4 b) = Num (y + 12)"
  shows "chineseZodiacFromYear b = chineseZodiacFromYear a
       \<and> chineseZodiacFromYear a \<in> Some ` set CHINESE_ANIMALS"
proof -
  have "y + 12 - 2008 = (y - 2008) + 12" by simp
  then have "(y + 12 - 2008) mod 12 = (y - 2008) mod 12" by (metis mod_add_self2)
  then have same: "chineseZodiacFromYear b = chineseZodiacFromYear a"
    by (simp add: zodiac_of_year [OF assms(1)] zodiac_of_year [OF assms(2)])
  have "0 \<le> (y - 2008) mod 12" "(y - 2008) mod 12 < 12" by simp_all
  then have "nat ((y - 2008) mod 12) < length CHINESE_ANIMALS"
    by (simp add: CHINESE_ANIMALS_def)
  then have "CHINESE_ANIMALS ! nat ((y - 2008) mod 12) \<in> set CHINESE_ANIMALS"
    by (rule nth_mem)
  then show ?thesis using same by (simp add: zodiac_of_year [OF assms(1)])
qed

theorem zodiac_period_12_witness:
  "Number (slice0 4 (str ''1990-06-15'')) = Num 1990
   \<and> Number (slice0 4 (str ''2002-06-15'')) = Num (1990 + 12)
   \<and> chineseZodiacFromYear (str ''2002-06-15'') = chineseZodiacFromYear (str ''1990-06-15'')
   \<and> chineseZodiacFromYear (str ''1990-06-15'') = Some (str ''Horse'')"
proof -
  have a: "Number (slice0 4 (str ''1990-06-15'')) = Num 1990"
    by (simp add: slice0_def str_def Number_defs)
  have b: "Number (slice0 4 (str ''2002-06-15'')) = Num (1990 + 12)"
    by (simp add: slice0_def str_def Number_defs)
  have h: "chineseZodiacFromYear (str ''1990-06-15'') = Some (str ''Horse'')"
    by (simp add: zodiac_of_year [OF a] CHINESE_ANIMALS_def)
  from zodiac_period_12 [OF a b] show ?thesis using a b h by simp
qed

text \<open>
  Claim C4. For every life-path value among 1 .. 9, 11, 22 and 33, \<open>luckyNumber\<close> is
  the entry of the table 3, 6, 9, 2, 1, 8, 7, 5, 4 at index \<open>(lifePath - 1) mod 9\<close>, by
  the one formula for all twelve values, and it lies between 1 and 9.
\<close>

theorem luckyNumber_table:
  assumes "lp \<in> {1, 2, 3, 4, 5, 6, 7, 8, 9, 11, 22, 33}"
  shows "\<exists>v. luckyNumber (Num lp) = Some (Num v)
            \<and> v = [3, 6, 9, 2, 1, 8, 7, 5, 4] ! nat ((lp - 1) mod 9)
            \<and> 1 \<le> v \<and> v \<le> 9"
  using assms
  apply (elim insertE emptyE)
  apply (simp_all add: luckyNumber_def jsAdd_def remainder_def jsrem_def elemAt_def)
  done

theorem luckyNumber_table_witness:
  "(11::int) \<in> {1, 2, 3, 4, 5, 6, 7, 8, 9, 11, 22, 33} \<and> luckyNumber (Num 11) = Some (Num 6)
   \<and> (6::int) = [3, 6, 9, 2, 1, 8, 7, 5, 4] ! nat ((11 - 1) mod 9)"
proof -
  have m: "(11::int) \<in> {1, 2, 3, 4, 5, 6, 7, 8, 9, 11, 22, 33}" by simp
  from luckyNumber_table [OF m] show ?thesis by auto
qed

section \<open>Numerology: the claims\<close>

lemma Number_digit_char: "isDigit c \<Longrightarrow> Number [c] = Num (digitVal c)"
  by (auto simp: Number_def unsignedNumber_def isDigit_def decimalValue_def)

lemma digitVal_nonneg: "isDigit c \<Longrightarrow> 0 \<le> digitVal c"
  by (simp add: isDigit_def digitVal_def word_le_def)

lemma sum_digit_chars:
  "list_all isDigit xs \<Longrightarrow>
   foldl jsAdd (Num a) (map Number (splitChars xs)) =
     Num (a + int (sum_list (map (\<lambda>c. nat (digitVal c)) xs)))"
proof (induction xs arbitrary: a)
  case Nil
  then show ?case by (simp add: splitChars_def)
next
  case (Cons c xs)
  then have c: "isDigit c" and xs: "list_all isDigit xs" by simp_all
  have "foldl jsAdd (Num a) (map Number (splitChars (c # xs))) =
        foldl jsAdd (Num (a + digitVal c)) (map Number (splitChars xs))"
    by (simp add: splitChars_def Number_digit_char [OF c] jsAdd_def)
  also have "\<dots> = Num (a + digitVal c + int (sum_list (map (\<lambda>c. nat (digitVal c)) xs)))"
    by (rule Cons.IH [OF xs])
  finally show ?case using digitVal_nonneg [OF c] by simp
qed

lemma lifePath_is_reduce: "lifePathFromDate s = reduceDigits (Num (int (digitTotal s)))"
proof -
  have "list_all isDigit (filter isDigit s)" by (simp add: list_all_iff)
  from sum_digit_chars [OF this, of 0] show ?thesis
    by (simp add: lifePathFromDate_def sumNumbers_def digitTotal_def)
qed

lemma showNat_digits: "list_all isDigit (showNat n)"
proof (induction n rule: showNat.induct)
  case (1 n)
  have d: "isDigit (48 + of_nat k)" if "k < 10" for k :: nat
  proof -
    have "k \<in> {0, 1, 2, 3, 4, 5, 6, 7, 8, 9}" using that by auto
    then show ?thesis by (auto simp: isDigit_def)
  qed
  show ?case
  proof (cases "n < 10")
    case True
    then show ?thesis by (subst showNat.simps) (simp add: d)
  next
    case False
    then show ?thesis using 1 by (subst showNat.simps) (simp add: d)
  qed
qed

lemma showNat_total: "sum_list (map (\<lambda>c. nat (digitVal c)) (showNat n)) = decimalDigitSum n"
proof (induction n rule: showNat.induct)
  case (1 n)
  have d: "nat (digitVal (48 + of_nat k)) = k" if "k < 10" for k :: nat
  proof -
    have "k \<in> {0, 1, 2, 3, 4, 5, 6, 7, 8, 9}" using that by auto
    then show ?thesis by (auto simp: digitVal_def)
  qed
  show ?case
  proof (cases "n < 10")
    case True
    then show ?thesis
      by (subst showNat.simps, subst decimalDigitSum.simps) (simp add: d)
  next
    case False
    then show ?thesis using 1
      by (subst showNat.simps, subst decimalDigitSum.simps) (simp add: d)
  qed
qed

lemma digitSumOf_nat: "digitSumOf (Num (int n)) = Num (int (decimalDigitSum n))"
  using sum_digit_chars [OF showNat_digits, of 0 n]
  by (simp add: digitSumOf_def sumNumbers_def toString_def showNat_total)

lemma decimalDigitSum_less: "10 \<le> n \<Longrightarrow> decimalDigitSum n < n"
proof (induction n rule: decimalDigitSum.induct)
  case (1 n)
  have le: "decimalDigitSum (n div 10) \<le> n div 10"
  proof (cases "10 \<le> n div 10")
    case True
    with 1 show ?thesis by simp
  next
    case False
    then show ?thesis by (subst decimalDigitSum.simps) simp
  qed
  have "1 \<le> n div 10" using 1(2) by simp
  moreover have "n = 10 * (n div 10) + n mod 10" by simp
  ultimately have "n div 10 + n mod 10 < n" by linarith
  then show ?case using le 1(2) by (subst decimalDigitSum.simps) simp
qed

lemma decimalDigitSum_pos: "1 \<le> n \<Longrightarrow> 1 \<le> decimalDigitSum n"
proof (induction n rule: decimalDigitSum.induct)
  case (1 n)
  show ?case
  proof (cases "n < 10")
    case True
    then show ?thesis using 1(2) by (subst decimalDigitSum.simps) simp
  next
    case False
    then have "1 \<le> n div 10" by simp
    with 1(1) False have "1 \<le> decimalDigitSum (n div 10)" by simp
    then show ?thesis using False by (subst decimalDigitSum.simps) simp
  qed
qed

lemma reduceDigits_step:
  "reduceDigits (Num (int n)) =
     (if 9 < n \<and> n \<notin> {11, 22, 33} then reduceDigits (Num (int (decimalDigitSum n)))
      else Num (int n))"
  by (subst reduceDigits.simps) (auto simp: jsGt_def digitSumOf_nat)

lemma reduceDigits_stops:
  "\<exists>r. reduceDigits (Num (int n)) = Num (int r) \<and> int r \<in> stopValues \<and> (1 \<le> n \<longrightarrow> 1 \<le> r)"
proof (induction n rule: less_induct)
  case (less n)
  show ?case
  proof (cases "9 < n \<and> n \<notin> {11, 22, 33}")
    case True
    then have "10 \<le> n" "1 \<le> n" by simp_all
    then have "decimalDigitSum n < n" "1 \<le> decimalDigitSum n"
      by (simp_all only: decimalDigitSum_less decimalDigitSum_pos)
    from less [OF this(1)] this(2) obtain r where
      "reduceDigits (Num (int (decimalDigitSum n))) = Num (int r)" "int r \<in> stopValues" "1 \<le> r"
      by blast
    then show ?thesis using True by (subst reduceDigits_step) auto
  next
    case False
    then have "n \<in> {0, 1, 2, 3, 4, 5, 6, 7, 8, 9, 11, 22, 33}" by auto
    then have "int n \<in> stopValues" by (auto simp: stopValues_def)
    then show ?thesis using False by (subst reduceDigits_step) auto
  qed
qed


lemma digitTotal_pos:
  "c \<in> set s \<Longrightarrow> isDigit c \<Longrightarrow> c \<noteq> 48 \<Longrightarrow> 1 \<le> digitTotal s"
proof (induction s)
  case Nil
  then show ?case by simp
next
  case (Cons x xs)
  show ?case
  proof (cases "c = x")
    case True
    have "48 < x" using Cons.prems True by (auto simp: isDigit_def less_le)
    then have "1 \<le> nat (digitVal x)" by (simp add: digitVal_def word_less_def)
    then show ?thesis using Cons.prems True by (simp add: digitTotal_def)
  next
    case False
    then have "1 \<le> digitTotal xs" using Cons by simp
    then show ?thesis by (simp add: digitTotal_def)
  qed
qed

lemma wellFormed_nonzero_digit:
  assumes wf: "wellFormedDate s" and nz: "s \<noteq> str ''0000-00-00''"
  shows "\<exists>c \<in> set s. isDigit c \<and> c \<noteq> 48"
proof -
  from wf have "length s = 10" by (simp add: wellFormedDate_def)
  then obtain x0 x1 x2 x3 x4 x5 x6 x7 x8 x9 where
    s: "s = [x0, x1, x2, x3, x4, x5, x6, x7, x8, x9]"
    by (auto simp: eval_nat_numeral length_Suc_conv)
  show ?thesis
  proof (rule ccontr)
    assume "\<not> (\<exists>c \<in> set s. isDigit c \<and> c \<noteq> 48)"
    then have all: "\<forall>c \<in> set s. isDigit c \<longrightarrow> c = 48" by blast
    from wf have "s = str ''0000-00-00''"
      using all unfolding s by (simp add: wellFormedDate_def str_def)
    with nz show False by simp
  qed
qed

text \<open>
  Claim C3. \<open>lifePathFromDate\<close> keeps the digit characters of the date text and sums
  their values; \<open>reduceDigits\<close> replaces a running total above 9 that is none of 11, 22,
  33 by the sum of its decimal digits and returns every other total as it is (stated for
  totals below \<open>2 ^ 53\<close>, where a number is an exact integer), so the result is at most
  9 or one of 11, 22, 33. The text 1990-01-01 gives 3, and every text whose digits sum to
  29 gives 11.
\<close>

theorem lifePath_reduction:
  "lifePathFromDate isoDate = reduceDigits (Num (int (digitTotal isoDate)))
   \<and> (n < 2 ^ 53 \<longrightarrow>
        reduceDigits (Num (int n)) =
          (if 9 < n \<and> n \<notin> {11, 22, 33} then reduceDigits (Num (int (decimalDigitSum n)))
           else Num (int n)))
   \<and> (\<exists>r. lifePathFromDate isoDate = Num r \<and> 0 \<le> r \<and> (r \<le> 9 \<or> r \<in> {11, 22, 33}))
   \<and> lifePathFromDate (str ''1990-01-01'') = Num 3
   \<and> (digitTotal isoDate = 29 \<longrightarrow> lifePathFromDate isoDate = Num 11)"
proof -
  have ds: "decimalDigitSum 21 = 3" "decimalDigitSum 29 = 11"
    by (simp_all add: decimalDigitSum.simps)
  have r21: "reduceDigits (Num 21) = Num 3"
    using reduceDigits_step [of 21] reduceDigits_step [of 3] by (simp add: ds)
  have r29: "reduceDigits (Num 29) = Num 11"
    using reduceDigits_step [of 29] reduceDigits_step [of 11] by (simp add: ds)
  have t: "digitTotal (str ''1990-01-01'') = 21"
    by (simp add: digitTotal_def str_def isDigit_def digitVal_def)
  from reduceDigits_stops [of "digitTotal isoDate"] obtain r where
    "lifePathFromDate isoDate = Num (int r)" "int r \<in> stopValues"
    by (auto simp: lifePath_is_reduce)
  then have stop: "\<exists>r. lifePathFromDate isoDate = Num r \<and> 0 \<le> r \<and> (r \<le> 9 \<or> r \<in> {11, 22, 33})"
    by (auto simp: stopValues_def)
  have ex: "lifePathFromDate (str ''1990-01-01'') = Num 3"
    by (simp add: lifePath_is_reduce t r21)
  have m: "digitTotal isoDate = 29 \<longrightarrow> lifePathFromDate isoDate = Num 11"
    by (simp add: lifePath_is_reduce r29)
  have step: "n < 2 ^ 53 \<longrightarrow>
        reduceDigits (Num (int n)) =
          (if 9 < n \<and> n \<notin> {11, 22, 33} then reduceDigits (Num (int (decimalDigitSum n)))
           else Num (int n))"
    using reduceDigits_step [of n] by (rule impI)
  show ?thesis
    using lifePath_is_reduce [of isoDate] step stop ex m by (intro conjI)
qed

theorem lifePath_reduction_witness:
  "digitTotal (str ''1990-09-01'') = 29 \<and> lifePathFromDate (str ''1990-09-01'') = Num 11
   \<and> (29 :: nat) < 2 ^ 53
   \<and> reduceDigits (Num (int 29)) = reduceDigits (Num (int (decimalDigitSum 29)))"
proof -
  have t: "digitTotal (str ''1990-09-01'') = 29"
    by (simp add: digitTotal_def str_def isDigit_def digitVal_def)
  have b: "(29 :: nat) < 2 ^ 53" by simp
  note inst = lifePath_reduction [of "str ''1990-09-01''" 29]
  from inst
  have "digitTotal (str ''1990-09-01'') = 29 \<longrightarrow> lifePathFromDate (str ''1990-09-01'') = Num 11"
    by (elim conjE)
  moreover from inst
  have "(29 :: nat) < 2 ^ 53 \<longrightarrow>
        reduceDigits (Num (int 29)) =
          (if 9 < (29 :: nat) \<and> (29 :: nat) \<notin> {11, 22, 33}
           then reduceDigits (Num (int (decimalDigitSum 29))) else Num (int 29))"
    by (elim conjE)
  ultimately have "lifePathFromDate (str ''1990-09-01'') = Num 11"
    and "reduceDigits (Num (int 29)) =
          (if 9 < (29 :: nat) \<and> (29 :: nat) \<notin> {11, 22, 33}
           then reduceDigits (Num (int (decimalDigitSum 29))) else Num (int 29))"
    using t b by blast+
  then have "lifePathFromDate (str ''1990-09-01'') = Num 11"
    and "reduceDigits (Num (int 29)) = reduceDigits (Num (int (decimalDigitSum 29)))"
    by simp_all
  with t b show ?thesis by (intro conjI)
qed

lemma lifePath_of_zero_date: "lifePathFromDate (str ''0000-00-00'') = Num 0"
proof -
  have "digitTotal (str ''0000-00-00'') = 0"
    by (simp add: digitTotal_def str_def isDigit_def digitVal_def)
  then show ?thesis
    using reduceDigits_step [of 0] by (simp add: lifePath_is_reduce)
qed

text \<open>
  Claim C6 as stated fails at the well-formed text 0000-00-00, which the caller's check
  lets through: its digits sum to 0, and the life path is 0.
\<close>

theorem lifePath_zero_counterexample:
  "wellFormedDate (str ''0000-00-00'')
   \<and> lifePathFromDate (str ''0000-00-00'') = Num 0
   \<and> lifePathFromDate (str ''0000-00-00'') \<notin> Num ` {1, 2, 3, 4, 5, 6, 7, 8, 9, 11, 22, 33}"
proof -
  have "wellFormedDate (str ''0000-00-00'')"
    by (simp add: wellFormedDate_def str_def isDigit_def)
  then show ?thesis by (auto simp: lifePath_of_zero_date)
qed

text \<open>
  Claim C6, amended. For every well-formed date text other than 0000-00-00, the life path
  computed by \<open>lifePathFromDate\<close>, which \<open>profileFromBirth\<close> stores in the profile, is
  one of 1 .. 9, 11, 22, 33. For the text 0000-00-00 the computed life path is 0, and 0 is
  what \<open>profileFromBirth\<close> stores for every input with that date.
\<close>

theorem lifePath_in_range:
  assumes "wellFormedDate (date input)" and "date input \<noteq> str ''0000-00-00''"
      and zero: "date zeroInput = str ''0000-00-00''"
  shows "lifePath (profileFromBirth input) = lifePathFromDate (date input)
       \<and> lifePathFromDate (date input) \<in> Num ` {1, 2, 3, 4, 5, 6, 7, 8, 9, 11, 22, 33}
       \<and> lifePathFromDate (str ''0000-00-00'') = Num 0
       \<and> lifePath (profileFromBirth zeroInput) = Num 0"
proof -
  from wellFormed_nonzero_digit [OF assms(1,2)] obtain c where
    "c \<in> set (date input)" "isDigit c" "c \<noteq> 48" by blast
  then have pos: "1 \<le> digitTotal (date input)" by (rule digitTotal_pos)
  from reduceDigits_stops [of "digitTotal (date input)"] pos obtain r where
    r: "lifePathFromDate (date input) = Num (int r)" "int r \<in> stopValues" "1 \<le> r"
    by (auto simp: lifePath_is_reduce)
  then have "int r \<in> {1, 2, 3, 4, 5, 6, 7, 8, 9, 11, 22, 33}"
    by (auto simp: stopValues_def)
  then have "lifePathFromDate (date input) \<in> Num ` {1, 2, 3, 4, 5, 6, 7, 8, 9, 11, 22, 33}"
    unfolding r(1) by (rule imageI)
  moreover have "lifePath (profileFromBirth input) = lifePathFromDate (date input)"
    by (simp add: profileFromBirth_def Let_def)
  moreover have "lifePath (profileFromBirth zeroInput) = Num 0"
    by (simp add: profileFromBirth_def Let_def zero lifePath_of_zero_date)
  ultimately show ?thesis using lifePath_of_zero_date by (intro conjI)
qed

theorem lifePath_in_range_witness:
  "wellFormedDate (str ''1990-09-01'') \<and> str ''1990-09-01'' \<noteq> str ''0000-00-00''
   \<and> lifePath (profileFromBirth \<lparr>BirthInput.name = str ''Asha'', date = str ''1990-09-01'',
        time = str ''06:30'', place = str ''Pune'', tzOffset = str ''+05:30''\<rparr>)
       \<in> Num ` {1, 2, 3, 4, 5, 6, 7, 8, 9, 11, 22, 33}
   \<and> lifePath (profileFromBirth \<lparr>BirthInput.name = str ''Asha'', date = str ''0000-00-00'',
        time = str ''06:30'', place = str ''Pune'', tzOffset = str ''+05:30''\<rparr>) = Num 0"
proof -
  define a where "a = \<lparr>BirthInput.name = str ''Asha'', date = str ''1990-09-01'',
        time = str ''06:30'', place = str ''Pune'', tzOffset = str ''+05:30''\<rparr>"
  define z where "z = \<lparr>BirthInput.name = str ''Asha'', date = str ''0000-00-00'',
        time = str ''06:30'', place = str ''Pune'', tzOffset = str ''+05:30''\<rparr>"
  have w: "wellFormedDate (date a)"
    by (simp add: a_def wellFormedDate_def str_def isDigit_def)
  have n: "date a \<noteq> str ''0000-00-00''" by (simp add: a_def str_def)
  have d: "date z = str ''0000-00-00''" by (simp add: z_def)
  from lifePath_in_range [OF w n d]
  have "lifePath (profileFromBirth a) \<in> Num ` {1, 2, 3, 4, 5, 6, 7, 8, 9, 11, 22, 33}"
    and "lifePath (profileFromBirth z) = Num 0"
    by simp_all
  moreover have "wellFormedDate (str ''1990-09-01'')" using w by (simp add: a_def)
  moreover have "str ''1990-09-01'' \<noteq> str ''0000-00-00''" using n by (simp add: a_def)
  ultimately show ?thesis unfolding a_def z_def by (intro conjI)
qed

section \<open>Seeded selector: the claim\<close>

lemma seedFrom_range: "0 \<le> seedFrom s \<and> seedFrom s < 1"
proof -
  define h where "h = foldl (\<lambda>h c. (h XOR ucast c) * 16777619) (2166136261 :: 32 word) s"
  have "unat h < 2 ^ 32" using unsigned_less [of h] by simp
  then have "(of_nat (unat h) :: rat) < of_nat (2 ^ 32)" by (simp only: of_nat_less_iff)
  then have "(of_nat (unat h) :: rat) / 2 ^ 32 < 1" by (simp del: of_nat_unat)
  moreover have "0 \<le> (of_nat (unat h) :: rat) / 2 ^ 32" by (simp del: of_nat_unat)
  ultimately show ?thesis by (simp add: seedFrom_def h_def del: of_nat_unat)
qed

lemma daily_index_range:
  "0 \<le> \<lfloor>seedFrom s * 7\<rfloor> \<and> \<lfloor>seedFrom s * 7\<rfloor> < 7"
proof -
  have r: "0 \<le> seedFrom s" "seedFrom s < 1" using seedFrom_range [of s] by simp_all
  then have "0 \<le> seedFrom s * 7" "seedFrom s * 7 < 7" by simp_all
  then show ?thesis by (simp add: floor_less_iff)
qed

text \<open>
  Claim C5. For every name and date, \<open>dailyMessage\<close> hashes the concatenation with the
  32-bit hash of \<open>seedFrom\<close>, whose value is the unsigned hash divided by \<open>2 ^ 32\<close>
  and lies in \<open>[0, 1)\<close>; the index \<open>floor (seed * 7)\<close> is below the length 7 of the
  affirmation list, so the result is an element of that list, never \<open>undefined\<close>. The
  result is a function of the two arguments alone: equal arguments give equal messages.
\<close>

theorem dailyMessage_in_list:
  "seedFrom (nm @ isoDate) =
     of_nat (unat (foldl (\<lambda>h c. (h XOR ucast c) * 16777619) (2166136261 :: 32 word) (nm @ isoDate))) / 2 ^ 32
   \<and> 0 \<le> seedFrom (nm @ isoDate) \<and> seedFrom (nm @ isoDate) < 1
   \<and> nat \<lfloor>seedFrom (nm @ isoDate) * 7\<rfloor> < length DAILY_AFFIRM
   \<and> dailyMessage nm isoDate = Some (DAILY_AFFIRM ! nat \<lfloor>seedFrom (nm @ isoDate) * 7\<rfloor>)
   \<and> dailyMessage nm isoDate \<in> Some ` set DAILY_AFFIRM
   \<and> (nm' = nm \<and> isoDate' = isoDate \<longrightarrow> dailyMessage nm' isoDate' = dailyMessage nm isoDate)"
proof -
  have len: "length DAILY_AFFIRM = 7" by (simp add: DAILY_AFFIRM_def)
  have idx: "0 \<le> \<lfloor>seedFrom (nm @ isoDate) * 7\<rfloor>" "\<lfloor>seedFrom (nm @ isoDate) * 7\<rfloor> < 7"
    using daily_index_range [of "nm @ isoDate"] by simp_all
  then have lt: "nat \<lfloor>seedFrom (nm @ isoDate) * 7\<rfloor> < length DAILY_AFFIRM"
    unfolding len by linarith
  have val: "dailyMessage nm isoDate = Some (DAILY_AFFIRM ! nat \<lfloor>seedFrom (nm @ isoDate) * 7\<rfloor>)"
    using idx by (simp add: dailyMessage_def elemAt_def len)
  have mem: "dailyMessage nm isoDate \<in> Some ` set DAILY_AFFIRM"
    unfolding val using lt by (intro imageI nth_mem)
  have def: "seedFrom (nm @ isoDate) =
     of_nat (unat (foldl (\<lambda>h c. (h XOR ucast c) * 16777619) (2166136261 :: 32 word) (nm @ isoDate))) / 2 ^ 32"
    by (simp add: seedFrom_def)
  have det: "nm' = nm \<and> isoDate' = isoDate \<longrightarrow> dailyMessage nm' isoDate' = dailyMessage nm isoDate"
    by simp
  show ?thesis using def seedFrom_range [of "nm @ isoDate"] lt val mem det by (intro conjI) simp_all
qed

theorem dailyMessage_in_list_witness:
  "str ''A'' = str ''A'' \<and> str ''2'' = str ''2''
   \<and> dailyMessage (str ''A'') (str ''2'') = Some (str ''Lead with kindness; it compounds quietly.'')
   \<and> dailyMessage (str ''A'') (str ''2'') \<in> Some ` set DAILY_AFFIRM"
proof -
  have h: "foldl (\<lambda>h c. (h XOR ucast c) * 16777619) (2166136261 :: 32 word) (str ''A'' @ str ''2'') = 2631258586"
    by (simp add: str_def)
  have s: "seedFrom (str ''A'' @ str ''2'') = 2631258586 / 2 ^ 32"
    unfolding seedFrom_def h by simp
  have f: "\<lfloor>seedFrom (str ''A'' @ str ''2'') * 7\<rfloor> = 4"
    unfolding s by (simp add: floor_eq_iff)
  have len: "(of_nat (length DAILY_AFFIRM) :: rat) = 7" by (simp add: DAILY_AFFIRM_def)
  have "dailyMessage (str ''A'') (str ''2'') = elemAt DAILY_AFFIRM (Num 4)"
    unfolding dailyMessage_def Let_def len f ..
  then have v: "dailyMessage (str ''A'') (str ''2'') = Some (str ''Lead with kindness; it compounds quietly.'')"
    by (simp add: DAILY_AFFIRM_def elemAt_def)
  from dailyMessage_in_list [of "str ''A''" "str ''2''" "str ''A''" "str ''2''"]
  have "dailyMessage (str ''A'') (str ''2'') \<in> Some ` set DAILY_AFFIRM" by (elim conjE)
  with v show ?thesis by simp
qed

section \<open>Question router and profile composer: the claims\<close>

lemma includesStr_prefix: "includesStr (k @ ys) k"
proof (cases "k @ ys")
  case Nil
  then show ?thesis by simp
next
  case (Cons a list)
  then have "take (length k) (a # list) = k" by (metis append_eq_conv_conj)
  then show ?thesis unfolding Cons by simp
qed

lemma includesStr_middle: "includesStr (xs @ k @ ys) k"
  by (induction xs) (simp_all add: includesStr_prefix)

lemma find_none: "(\<forall>k \<in> set ks. \<not> P k) \<Longrightarrow> find P ks = None"
  by (simp add: find_None_iff)

lemma career_question:
  "find (\<lambda>k. includesStr (toLowerCase (str ''How is my career?'')) k) KEYWORDS = Some (str ''career'')"
  by (simp add: toLowerCase_def lowerUnit_def str_def KEYWORDS_def)

text \<open>
  Claim C7. For the question "How is my career?" and every profile whose element is Fire,
  the answer of \<open>qaFallback\<close> contains "act boldly"; and for every question whose
  lower-cased text contains none of the topic keywords, the answer is the profile's
  opening followed by the default template, which contains "clarify intention".
\<close>

theorem qaFallback_routes:
  assumes fire: "element fireProfile = Fire"
      and nokey: "\<forall>k \<in> set KEYWORDS. \<not> includesStr (toLowerCase question) k"
  shows "includesStr (qaFallback (str ''How is my career?'') fireProfile) (str ''act boldly'')
       \<and> qaFallback question profile =
           str ''As a '' @ sunSign profile @ str '' ('' @ showElement (element profile)
           @ str ''), Life Path '' @ toString (lifePath profile) @ str '': '' @ defaultText
       \<and> includesStr (qaFallback question profile) (str ''clarify intention'')"
proof -
  have c: "careerText Fire = str ''act boldly'' @ (str '' the next 7'' @ [8211] @ str ''10 days; pitch ideas and network. Document wins daily; momentum is your ally.'')"
    by (simp add: careerText_def str_def)
  have "qaFallback (str ''How is my career?'') fireProfile =
          (str ''As a '' @ sunSign fireProfile @ str '' ('' @ showElement Fire
           @ str ''), Life Path '' @ toString (lifePath fireProfile) @ str '': '') @ careerText Fire"
    unfolding qaFallback_def career_question Let_def using fire by (simp add: str_def)
  then have p1: "includesStr (qaFallback (str ''How is my career?'') fireProfile) (str ''act boldly'')"
    unfolding c by (simp only: includesStr_middle)
  have none: "find (\<lambda>k. includesStr (toLowerCase question) k) KEYWORDS = None"
    using nokey by (rule find_none)
  have p2: "qaFallback question profile =
           str ''As a '' @ sunSign profile @ str '' ('' @ showElement (element profile)
           @ str ''), Life Path '' @ toString (lifePath profile) @ str '': '' @ defaultText"
    unfolding qaFallback_def none Let_def by simp
  have d: "defaultText = str ''clarify intention'' @ str '' in one sentence, take the smallest next step today, and review results in 48 hours.''"
    by (simp add: defaultText_def str_def)
  have "qaFallback question profile =
           (str ''As a '' @ sunSign profile @ str '' ('' @ showElement (element profile)
           @ str ''), Life Path '' @ toString (lifePath profile) @ str '': '') @ str ''clarify intention'' @ str '' in one sentence, take the smallest next step today, and review results in 48 hours.''"
    unfolding p2 d by simp
  then have p3: "includesStr (qaFallback question profile) (str ''clarify intention'')"
    by (simp only: includesStr_middle)
  show ?thesis using p1 p2 p3 by (intro conjI)
qed

theorem qaFallback_routes_witness:
  "includesStr (qaFallback (str ''How is my career?'')
      \<lparr>AstroProfile.name = str ''Asha'', sunSign = str ''Leo'', element = Fire, modality = Fixed,
       lifePath = Num 3, chineseAnimal = Some (str ''Horse''), luckyColor = str ''#f59e0b'',
       luckyNumber = Some (Num 9), summary = str ''Asha''\<rparr>) (str ''act boldly'')
   \<and> qaFallback (str ''What now?'')
      \<lparr>AstroProfile.name = str ''Asha'', sunSign = str ''Leo'', element = Fire, modality = Fixed,
       lifePath = Num 3, chineseAnimal = Some (str ''Horse''), luckyColor = str ''#f59e0b'',
       luckyNumber = Some (Num 9), summary = str ''Asha''\<rparr>
     = str ''As a Leo (Fire), Life Path 3: '' @ defaultText"
proof -
  define p where "p = \<lparr>AstroProfile.name = str ''Asha'', sunSign = str ''Leo'', element = Fire,
       modality = Fixed, lifePath = Num 3, chineseAnimal = Some (str ''Horse''),
       luckyColor = str ''#f59e0b'', luckyNumber = Some (Num 9), summary = str ''Asha''\<rparr>"
  have f: "element p = Fire" by (simp add: p_def)
  have n: "\<forall>k \<in> set KEYWORDS. \<not> includesStr (toLowerCase (str ''What now?'')) k"
    by (simp add: toLowerCase_def lowerUnit_def str_def KEYWORDS_def)
  have t: "toString (Num 3) = str ''3''"
    by (simp add: toString_def showNat.simps str_def)
  from qaFallback_routes [OF f n, of p]
  have "includesStr (qaFallback (str ''How is my career?'') p) (str ''act boldly'')"
    and "qaFallback (str ''What now?'') p =
           str ''As a '' @ sunSign p @ str '' ('' @ showElement (element p)
           @ str ''), Life Path '' @ toString (lifePath p) @ str '': '' @ defaultText"
    by simp_all
  then show ?thesis unfolding p_def by (simp add: t str_def)
qed

text \<open>
  Claim C8. \<open>qaFallback\<close> is a total function of the question and the profile (its
  model is a non-recursive definition over total list functions, with no error branch),
  and its answer is never the empty text: it always starts with "As a " and the sign.
\<close>

theorem qaFallback_nonempty:
  "qaFallback question profile \<noteq> []
   \<and> (\<exists>rest. qaFallback question profile = str ''As a '' @ sunSign profile @ rest)"
proof -
  have "\<exists>rest. qaFallback question profile = str ''As a '' @ sunSign profile @ rest"
    by (simp add: qaFallback_def Let_def)
  moreover have "str ''As a '' \<noteq> []" by (simp add: str_def)
  ultimately show ?thesis by auto
qed

text \<open>
  Claim C10. \<open>profileFromBirth\<close> reads only the name and the date of its input: two
  inputs with the same name and date, whatever their time, place and offset, give
  profiles equal in every field, the summary included.
\<close>

theorem profile_depends_on_name_and_date:
  assumes "BirthInput.name a = BirthInput.name b" and "date a = date b"
  shows "profileFromBirth a = profileFromBirth b"
  using assms by (simp add: profileFromBirth_def)

theorem profile_depends_on_name_and_date_witness:
  "time \<lparr>BirthInput.name = str ''Asha'', date = str ''1990-09-01'', time = str ''06:30'', place = str ''Pune'', tzOffset = str ''+05:30''\<rparr>
     \<noteq> time \<lparr>BirthInput.name = str ''Asha'', date = str ''1990-09-01'', time = str ''23:59'', place = str ''Lima'', tzOffset = str ''-05:00''\<rparr>
   \<and> profileFromBirth \<lparr>BirthInput.name = str ''Asha'', date = str ''1990-09-01'', time = str ''06:30'', place = str ''Pune'', tzOffset = str ''+05:30''\<rparr>
     = profileFromBirth \<lparr>BirthInput.name = str ''Asha'', date = str ''1990-09-01'', time = str ''23:59'', place = str ''Lima'', tzOffset = str ''-05:00''\<rparr>"
proof -
  have "time \<lparr>BirthInput.name = str ''Asha'', date = str ''1990-09-01'', time = str ''06:30'', place = str ''Pune'', tzOffset = str ''+05:30''\<rparr>
     \<noteq> time \<lparr>BirthInput.name = str ''Asha'', date = str ''1990-09-01'', time = str ''23:59'', place = str ''Lima'', tzOffset = str ''-05:00''\<rparr>"
    by (simp add: str_def)
  moreover have "profileFromBirth \<lparr>BirthInput.name = str ''Asha'', date = str ''1990-09-01'', time = str ''06:30'', place = str ''Pune'', tzOffset = str ''+05:30''\<rparr>
     = profileFromBirth \<lparr>BirthInput.name = str ''Asha'', date = str ''1990-09-01'', time = str ''23:59'', place = str ''Lima'', tzOffset = str ''-05:00''\<rparr>"
    by (rule profile_depends_on_name_and_date) simp_all
  ultimately show ?thesis by (rule conjI)
qed

end
